theory Spec2Isabelle
  imports Main "HOL-Library.Word"
begin

section \<open>The WASI host-call shim of Fizzy (tools/wasi/wasi.cpp)\<close>

text \<open>
  The file under verification is glue between two collaborators that it only calls:
  the interpreter (parse, resolve_imported_functions, instantiate, the export lookups and
  execute) and the syscall-emulation object behind the global pointer \<open>wasi_impl\<close>.
  Neither is defined in that file, so both are parameters here: a record of operations
  each. What wasi.cpp itself does (the handlers, the host-call table and \<open>run\<close>) is
  translated line by line, and the statements about it hold for whatever the
  collaborators compute, unless a statement names what it takes from them.
\<close>

subsection \<open>Values and execution results\<close>

type_synonym u32 = "32 word"
type_synonym bytes = "8 word list"

text \<open>
  \<open>uvwasi_errno_t\<close>: the collaborator's status type, an unsigned 16-bit integer. The
  handlers widen it with \<open>uint32_t{ret}\<close>, which the braces allow only because no
  value is lost.
\<close>
type_synonym uvwasi_errno_t = "16 word"

text \<open>
  A \<open>Value\<close> is one untyped 64-bit slot of the interpreter. An i32 is stored
  zero-extended (\<open>Value{uint32_t}\<close>) and read back with \<open>as<uint32_t>()\<close>.
\<close>
type_synonym Value = "64 word"

definition Value_u32 :: "u32 \<Rightarrow> Value" where
  "Value_u32 v = ucast v"

definition as_u32 :: "Value \<Rightarrow> u32" where
  "as_u32 v = ucast v"

datatype ValType = i32 | i64 | f32 | f64

record FuncType =
  inputs :: "ValType list"
  outputs :: "ValType list"

text \<open>\<open>FuncType{}\<close>: no parameters, no results.\<close>
definition FuncType_empty :: FuncType where
  "FuncType_empty = \<lparr>inputs = [], outputs = []\<rparr>"

text \<open>
  \<open>ExecutionResult\<close> is the struct the interpreter returns: two flags and a value slot.
  \<open>Void\<close> and \<open>Trap\<close> are its two constants; a \<open>Value\<close> converts to a result that
  has a value.
\<close>
record ExecutionResult =
  has_value :: bool
  trapped :: bool
  result_value :: Value

definition Void :: ExecutionResult where
  "Void = \<lparr>has_value = False, trapped = False, result_value = 0\<rparr>"

definition Trap :: ExecutionResult where
  "Trap = \<lparr>has_value = False, trapped = True, result_value = 0\<rparr>"

definition Result :: "Value \<Rightarrow> ExecutionResult" where
  "Result v = \<lparr>has_value = True, trapped = False, result_value = v\<rparr>"

subsection \<open>Effects\<close>

text \<open>
  A call into the collaborator or into the interpreter either comes back with a value or
  ends the process with an exit code (the collaborator's terminate operation). Handlers and
  \<open>execute\<close> are \<open>noexcept\<close>, so there is no third case for them.
\<close>
datatype 'a call = Returns 'a | Exits u32

text \<open>
  The failures of the parser and of instantiation are C++ exceptions; \<open>run\<close> has no
  handler for them, so they leave \<open>run\<close> as they are.
\<close>
datatype error =
    malformed_binary string
  | import_resolution_failure string
  | instantiation_failure string

text \<open>
  How a call of \<open>run\<close> ends: it returns its boolean, the process exits inside a host
  call, an exception of a collaborator passes through, or one of its two assertions
  fails.
\<close>
datatype run_outcome =
    Returned bool
  | Exited u32
  | Thrown error
  | AssertionFailed string

subsection \<open>The syscall-emulation collaborator\<close>

text \<open>
  The abstract class \<open>WASI\<close> behind \<open>wasi_impl\<close>, as a record of its virtual methods
  over a host state \<open>'h\<close> (open files, environment, the streams of the process). The
  operations that receive \<open>*instance.memory\<close> by reference return the memory they leave.
\<close>
record 'h WASI =
  init :: "int \<Rightarrow> string list \<Rightarrow> 'h \<Rightarrow> uvwasi_errno_t \<times> 'h"
  wasi_return_enosys :: "'h \<Rightarrow> uvwasi_errno_t \<times> 'h"
  wasi_proc_exit :: "u32 \<Rightarrow> 'h \<Rightarrow> uvwasi_errno_t call \<times> 'h"
  wasi_fd_write :: "bytes \<Rightarrow> u32 \<Rightarrow> u32 \<Rightarrow> u32 \<Rightarrow> u32 \<Rightarrow> 'h \<Rightarrow> uvwasi_errno_t \<times> bytes \<times> 'h"
  wasi_fd_read :: "bytes \<Rightarrow> u32 \<Rightarrow> u32 \<Rightarrow> u32 \<Rightarrow> u32 \<Rightarrow> 'h \<Rightarrow> uvwasi_errno_t \<times> bytes \<times> 'h"
  wasi_fd_prestat_get :: "bytes \<Rightarrow> u32 \<Rightarrow> u32 \<Rightarrow> 'h \<Rightarrow> uvwasi_errno_t \<times> bytes \<times> 'h"
  wasi_environ_sizes_get :: "bytes \<Rightarrow> u32 \<Rightarrow> u32 \<Rightarrow> 'h \<Rightarrow> uvwasi_errno_t \<times> bytes \<times> 'h"

subsection \<open>The handlers\<close>

text \<open>
  A handler has the C++ type
  \<open>ExecutionResult (std::any&, Instance&, const Value*, ExecutionContext&) noexcept\<close>.
  Of the instance it touches only \<open>*instance.memory\<close>; the host context and the
  execution context are unused. So a handler maps the argument slots, the guest memory
  and the host state to its result, the memory and the host state it leaves.
\<close>
type_synonym 'h handler =
  "Value list \<Rightarrow> bytes \<Rightarrow> 'h \<Rightarrow> ExecutionResult call \<times> bytes \<times> 'h"

definition return_enosys :: "'h WASI \<Rightarrow> 'h handler" where
  "return_enosys wasi_impl args memory h =
     (let (ret, h') = wasi_return_enosys wasi_impl h
      in (Returns (Result (Value_u32 (ucast ret))), memory, h'))"

text \<open>
  \<open>proc_exit\<close> passes the code to the collaborator and drops what the collaborator
  returns (the TODO of the source). If the collaborator comes back at all, the handler
  returns \<open>Trap\<close>, the line marked "should never be reached". The interpreter hands a
  handler one slot per declared parameter, so the reads \<open>args[i]\<close> below are within
  the slots; the statements about the handlers take the slots at their declared number.
\<close>
definition proc_exit :: "'h WASI \<Rightarrow> 'h handler" where
  "proc_exit wasi_impl args memory h =
     (case wasi_proc_exit wasi_impl (as_u32 (args ! 0)) h of
        (Exits code, h') \<Rightarrow> (Exits code, memory, h')
      | (Returns _, h') \<Rightarrow> (Returns Trap, memory, h'))"

definition fd_write :: "'h WASI \<Rightarrow> 'h handler" where
  "fd_write wasi_impl args memory h =
     (let fd = as_u32 (args ! 0);
          iov_ptr = as_u32 (args ! 1);
          iov_cnt = as_u32 (args ! 2);
          nwritten_ptr = as_u32 (args ! 3);
          (ret, memory', h') = wasi_fd_write wasi_impl memory fd iov_ptr iov_cnt nwritten_ptr h
      in (Returns (Result (Value_u32 (ucast ret))), memory', h'))"

definition fd_read :: "'h WASI \<Rightarrow> 'h handler" where
  "fd_read wasi_impl args memory h =
     (let fd = as_u32 (args ! 0);
          iov_ptr = as_u32 (args ! 1);
          iov_cnt = as_u32 (args ! 2);
          nread_ptr = as_u32 (args ! 3);
          (ret, memory', h') = wasi_fd_read wasi_impl memory fd iov_ptr iov_cnt nread_ptr h
      in (Returns (Result (Value_u32 (ucast ret))), memory', h'))"

definition fd_prestat_get :: "'h WASI \<Rightarrow> 'h handler" where
  "fd_prestat_get wasi_impl args memory h =
     (let fd = as_u32 (args ! 0);
          prestat_ptr = as_u32 (args ! 1);
          (ret, memory', h') = wasi_fd_prestat_get wasi_impl memory fd prestat_ptr h
      in (Returns (Result (Value_u32 (ucast ret))), memory', h'))"

definition environ_sizes_get :: "'h WASI \<Rightarrow> 'h handler" where
  "environ_sizes_get wasi_impl args memory h =
     (let environc = as_u32 (args ! 0);
          environ_buf_size = as_u32 (args ! 1);
          (ret, memory', h') = wasi_environ_sizes_get wasi_impl memory environc environ_buf_size h
      in (Returns (Result (Value_u32 (ucast ret))), memory', h'))"

subsection \<open>The host-call table\<close>

text \<open>
  \<open>ImportedFunction\<close>: the fields \<open>module\<close>, \<open>name\<close>, \<open>inputs\<close>, \<open>output\<close> and
  \<open>function\<close> of the C++ struct, prefixed because some of these words are reserved.
\<close>
record 'h ImportedFunction =
  imp_module :: string
  imp_name :: string
  imp_inputs :: "ValType list"
  imp_output :: "ValType option"
  imp_function :: "'h handler"

definition ns :: string where
  "ns = ''wasi_snapshot_preview1''"

definition wasi_functions :: "'h WASI \<Rightarrow> 'h ImportedFunction list" where
  "wasi_functions wasi_impl =
     [\<lparr>imp_module = ns, imp_name = ''proc_exit'', imp_inputs = [i32], imp_output = None,
        imp_function = proc_exit wasi_impl\<rparr>,
      \<lparr>imp_module = ns, imp_name = ''fd_read'', imp_inputs = [i32, i32, i32, i32], imp_output = Some i32,
        imp_function = fd_read wasi_impl\<rparr>,
      \<lparr>imp_module = ns, imp_name = ''fd_write'', imp_inputs = [i32, i32, i32, i32], imp_output = Some i32,
        imp_function = fd_write wasi_impl\<rparr>,
      \<lparr>imp_module = ns, imp_name = ''fd_prestat_get'', imp_inputs = [i32, i32], imp_output = Some i32,
        imp_function = fd_prestat_get wasi_impl\<rparr>,
      \<lparr>imp_module = ns, imp_name = ''fd_prestat_dir_name'', imp_inputs = [i32, i32, i32], imp_output = Some i32,
        imp_function = return_enosys wasi_impl\<rparr>,
      \<lparr>imp_module = ns, imp_name = ''environ_sizes_get'', imp_inputs = [i32, i32], imp_output = Some i32,
        imp_function = environ_sizes_get wasi_impl\<rparr>,
      \<lparr>imp_module = ns, imp_name = ''environ_get'', imp_inputs = [i32, i32], imp_output = Some i32,
        imp_function = return_enosys wasi_impl\<rparr>]"

subsection \<open>The interpreter collaborator\<close>

text \<open>
  What \<open>run\<close> calls in the parser and the interpreter, over a module type \<open>'m\<close>, the
  resolved imports \<open>'x\<close> and an instance type \<open>'i\<close>:
  \<^item> \<open>parse\<close>, \<open>resolve_imported_functions\<close> and \<open>instantiate\<close> return their result or
    fail with their error; \<open>run\<close> uses each result without any check of its own, so a
    failure can only be an exception. As in the interface list of the spec they are
    functions of their arguments: they run no guest code and leave the host state alone.
    \<open>instantiate\<close> returns a pointer, which the assertion after it expects not to be
    null: \<open>None\<close> is the null pointer.
  \<^item> \<open>instance_module\<close> is the field \<open>instance->module\<close>; the three lookups are pure.
  \<^item> \<open>execute\<close> runs guest code, which may call the handlers bound at instantiation:
    it changes the host state, and it returns a result unless a host call ended the
    process.
  \<^item> \<open>MaxMemoryPagesLimit\<close> is the constant of limits.hpp.
\<close>
record ('m, 'x, 'i, 'h) Interp =
  parse :: "bytes \<Rightarrow> error + 'm"
  resolve_imported_functions :: "'m \<Rightarrow> 'h ImportedFunction list \<Rightarrow> error + 'x"
  instantiate :: "'m \<Rightarrow> 'x \<Rightarrow> unit list \<Rightarrow> unit list \<Rightarrow> unit list \<Rightarrow> u32 \<Rightarrow> error + 'i option"
  instance_module :: "'i \<Rightarrow> 'm"
  find_exported_function_index :: "'m \<Rightarrow> string \<Rightarrow> nat option"
  get_function_type :: "'m \<Rightarrow> nat \<Rightarrow> FuncType"
  find_exported_memory :: "'i \<Rightarrow> string \<Rightarrow> bytes option"
  execute :: "'i \<Rightarrow> nat \<Rightarrow> Value list \<Rightarrow> 'h \<Rightarrow> ExecutionResult call \<times> 'h"
  MaxMemoryPagesLimit :: u32

subsection \<open>The module runner\<close>

definition endl :: string where
  "endl = [CHR 0x0A]"

text \<open>
  \<open>run\<close> takes the two collaborators (\<open>wasi_impl\<close> is what \<open>create_uvwasi()\<close>
  returned), the binary, the arguments, what the error stream holds so far and the host
  state. It gives back how the call ended, the error stream and the host state. The
  three empty lists are the imported tables, memories and globals.
\<close>
definition run ::
  "('m, 'x, 'i, 'h) Interp \<Rightarrow> 'h WASI \<Rightarrow> bytes \<Rightarrow> int \<Rightarrow> string list \<Rightarrow> string \<Rightarrow> 'h
     \<Rightarrow> run_outcome \<times> string \<times> 'h" where
  "run I wasi_impl wasm_binary argc argv err h0 =
     (case init wasi_impl argc argv h0 of (uvwasi_err, h1) \<Rightarrow>
      if uvwasi_err \<noteq> 0 then
        (Returned False, err @ ''Failed to initialise UVWASI: '' @ [] @ endl, h1)
      else
      (case parse I wasm_binary of
         Inl e \<Rightarrow> (Thrown e, err, h1)
       | Inr m \<Rightarrow>
      (case resolve_imported_functions I m (wasi_functions wasi_impl) of
         Inl e \<Rightarrow> (Thrown e, err, h1)
       | Inr imports \<Rightarrow>
      (case instantiate I m imports [] [] [] (MaxMemoryPagesLimit I) of
         Inl e \<Rightarrow> (Thrown e, err, h1)
       | Inr None \<Rightarrow> (AssertionFailed ''instance != nullptr'', err, h1)
       | Inr (Some inst) \<Rightarrow>
      (case find_exported_function_index I (instance_module I inst) ''_start'' of
         None \<Rightarrow>
           (Returned False, err @ ''File is not WASI compatible (_start not found)'' @ endl, h1)
       | Some start_function \<Rightarrow>
      if get_function_type I (instance_module I inst) start_function \<noteq> FuncType_empty then
        (Returned False,
         err @ ''File is not WASI compatible (_start has invalid signature)'' @ endl, h1)
      else if find_exported_memory I inst ''memory'' = None then
        (Returned False, err @ ''File is not WASI compatible (no memory exported)'' @ endl, h1)
      else
      (case execute I inst start_function [] h1 of
         (Exits code, h2) \<Rightarrow> (Exited code, err, h2)
       | (Returns result, h2) \<Rightarrow>
           if trapped result then
             (Returned False, err @ ''Execution aborted with WebAssembly trap'' @ endl, h2)
           else if has_value result then (AssertionFailed ''!result.has_value'', err, h2)
           else (Returned True, err, h2)))))))"

subsection \<open>What the collaborators are said to do\<close>

text \<open>
  Modelled from the spec: the method \<open>WASI::proc_exit\<close> of the syscall-emulation
  collaborator (wasi_uvwasi, not among the sources), which the interface list gives as
  \<open>terminate(exit-code)\<close> (never returns). The process ends with the code it is given.
\<close>
definition terminate :: "u32 \<Rightarrow> 'h \<Rightarrow> uvwasi_errno_t call \<times> 'h" where
  "terminate exit_code h = (Exits exit_code, h)"

text \<open>
  Modelled from the spec: the method \<open>WASI::return_enosys\<close> of the same collaborator,
  behind the unsupported-stub handler, which "performs no I/O and unconditionally returns
  the fixed not supported status". The status itself is a constant of the collaborator's
  headers and stays a parameter.
\<close>
definition not_supported :: "uvwasi_errno_t \<Rightarrow> 'h \<Rightarrow> uvwasi_errno_t \<times> 'h" where
  "not_supported enosys h = (enosys, h)"

text \<open>
  Modelled from the spec: type soundness of the interpreter's \<open>execute\<close> (execute.hpp,
  not among the sources). The interface list gives the outcome of \<open>execute\<close> as a value or
  a trap, the module description the interpreter works on is "typed", and of the entry
  function, whose type declares no result, the state machine says that it "returns
  normally with no value". The general form of that sentence, for any function of any
  instance: when \<open>execute\<close> returns a result that is not a trap, the result has a value
  exactly when the type of the executed function declares a result.
\<close>
definition type_sound :: "('m, 'x, 'i, 'h) Interp \<Rightarrow> bool" where
  "type_sound I =
     (\<forall>inst idx args h r h'.
        execute I inst idx args h = (Returns r, h') \<and> \<not> trapped r \<longrightarrow>
        has_value r = (outputs (get_function_type I (instance_module I inst) idx) \<noteq> []))"

text \<open>
  How a handler's outcome relates to what one operation of the collaborator gave: the
  handler returns, not trapped, one value that is numerically the status, and leaves the
  memory and the host state as that one operation left them.
\<close>
definition surfaces ::
  "uvwasi_errno_t \<times> bytes \<times> 'h \<Rightarrow> ExecutionResult call \<times> bytes \<times> 'h \<Rightarrow> bool" where
  "surfaces op out =
     (case out of
        (Returns r, memory', h') \<Rightarrow>
          has_value r \<and> \<not> trapped r \<and> unat (as_u32 (result_value r)) = unat (fst op) \<and>
          memory' = fst (snd op) \<and> h' = snd (snd op)
      | (Exits code, memory', h') \<Rightarrow> False)"

subsection \<open>A small collaborator pair for concrete runs\<close>

text \<open>
  To run the shim on concrete inputs, a collaborator whose host state is the log of the
  operations performed on it. \<open>init\<close> answers with a given status; descriptor 1 can
  be written and descriptor 0 read, every other descriptor is refused with status 8.
\<close>
definition toy_wasi :: "uvwasi_errno_t \<Rightarrow> string list WASI" where
  "toy_wasi init_status =
     \<lparr>init = (\<lambda>argc argv h. (init_status, h @ [''init''])),
      wasi_return_enosys = not_supported 52,
      wasi_proc_exit = terminate,
      wasi_fd_write = (\<lambda>memory fd iov_ptr iov_cnt nwritten_ptr h.
         (if fd = 1 then 0 else 8, memory[unat nwritten_ptr := 2], h @ [''fd_write''])),
      wasi_fd_read = (\<lambda>memory fd iov_ptr iov_cnt nread_ptr h.
         (if fd = 0 then 0 else 8, memory[unat nread_ptr := 1], h @ [''fd_read''])),
      wasi_fd_prestat_get = (\<lambda>memory fd prestat_ptr h.
         (8, memory, h @ [''fd_prestat_get''])),
      wasi_environ_sizes_get = (\<lambda>memory environc environ_buf_size h.
         (0, memory[unat environc := 3], h @ [''environ_sizes_get'']))\<rparr>"

text \<open>
  And an interpreter for modules that are given by a description: which functions the
  module imports, how many memory pages it asks for, the type of its \<open>_start\<close> export
  if it has one, whether it exports \<open>memory\<close>, the host calls \<open>_start\<close> makes in
  order, and what \<open>_start\<close> returns when no host call ends it.
\<close>
record toy_module =
  toy_imports :: "string list"
  toy_pages :: nat
  toy_start :: "FuncType option"
  toy_memory :: bool
  toy_body :: "(string \<times> Value list) list"
  toy_result :: ExecutionResult

text \<open>
  The calls of the body go through the handlers that were bound at instantiation. A
  handler that ends the process ends the execution; a handler that traps, or a call of a
  function that was not imported, makes the execution trap.
\<close>
fun toy_calls ::
  "(string \<times> 'h handler) list \<Rightarrow> (string \<times> Value list) list \<Rightarrow> bytes \<Rightarrow> 'h \<Rightarrow> ExecutionResult
     \<Rightarrow> ExecutionResult call \<times> 'h" where
  "toy_calls bound [] memory h r = (Returns r, h)"
| "toy_calls bound ((f, args) # rest) memory h r =
     (case map_of bound f of
        None \<Rightarrow> (Returns Trap, h)
      | Some handler \<Rightarrow>
          (case handler args memory h of
             (Exits code, memory', h') \<Rightarrow> (Exits code, h')
           | (Returns res, memory', h') \<Rightarrow>
               if trapped res then (Returns Trap, h') else toy_calls bound rest memory' h' r))"

type_synonym 'h toy_interp_t =
  "(toy_module, (string \<times> 'h handler) list, toy_module \<times> (string \<times> 'h handler) list, 'h) Interp"

definition toy_interp :: "toy_module \<Rightarrow> 'h toy_interp_t" where
  "toy_interp tm =
     \<lparr>parse = (\<lambda>b. if take 4 b = [0x00, 0x61, 0x73, 0x6D] then Inr tm
                    else Inl (malformed_binary ''invalid wasm module prefix'')),
      resolve_imported_functions = (\<lambda>m fs.
         if list_all (\<lambda>n. n \<in> set (map imp_name fs)) (toy_imports m)
         then Inr (map (\<lambda>f. (imp_name f, imp_function f)) fs)
         else Inl (import_resolution_failure ''imported function not found'')),
      instantiate = (\<lambda>m imports tables memories globals limit.
         if unat limit < toy_pages m then Inl (instantiation_failure ''memory limit exceeded'')
         else Inr (Some (m, imports))),
      instance_module = fst,
      find_exported_function_index = (\<lambda>m n.
         if n = ''_start'' \<and> toy_start m \<noteq> None then Some 0 else None),
      get_function_type = (\<lambda>m idx. case toy_start m of Some ft \<Rightarrow> ft | None \<Rightarrow> FuncType_empty),
      find_exported_memory = (\<lambda>inst n.
         if n = ''memory'' \<and> toy_memory (fst inst) then Some [] else None),
      execute = (\<lambda>inst idx args h.
         toy_calls (snd inst) (toy_body (fst inst)) (replicate 8 0) h (toy_result (fst inst))),
      MaxMemoryPagesLimit = 65536\<rparr>"

text \<open>
  An interpreter made type sound: every result that is not a trap is given the arity that
  the type of the executed function declares.
\<close>
definition typed_results :: "('m, 'x, 'i, 'h) Interp \<Rightarrow> ('m, 'x, 'i, 'h) Interp" where
  "typed_results I =
     I\<lparr>execute := (\<lambda>inst idx args h.
        case execute I inst idx args h of
          (Returns r, h') \<Rightarrow>
            (Returns (if trapped r then r
                      else r\<lparr>has_value :=
                        outputs (get_function_type I (instance_module I inst) idx) \<noteq> []\<rparr>), h')
        | (Exits code, h') \<Rightarrow> (Exits code, h'))\<rparr>"

text \<open>A well-formed module that imports nothing and whose \<open>_start\<close> does nothing.\<close>
definition toy_ok :: toy_module where
  "toy_ok = \<lparr>toy_imports = [], toy_pages = 1, toy_start = Some FuncType_empty,
             toy_memory = True, toy_body = [], toy_result = Void\<rparr>"

definition wasm_prefix :: bytes where
  "wasm_prefix = [0x00, 0x61, 0x73, 0x6D, 0x01, 0x00, 0x00, 0x00]"

section \<open>Basic facts\<close>

subsection \<open>Value slots\<close>

lemma as_u32_Value_u32: "as_u32 (Value_u32 v) = v"
  unfolding as_u32_def Value_u32_def
  by (rule bit_word_eqI) (simp add: bit_simps)

lemma unat_status: "unat (ucast (ret :: uvwasi_errno_t) :: u32) = unat ret"
proof -
  have "unat ret < 2 ^ 16"
    using unsigned_less [of ret, where 'a = nat] by simp
  then have "unat ret < 2 ^ 32"
    by simp
  then show ?thesis
    by (simp add: unsigned_ucast_eq take_bit_nat_eq_self)
qed

lemma FuncType_empty_iff:
  "ft = FuncType_empty \<longleftrightarrow> FuncType.inputs ft = [] \<and> outputs ft = []"
  by (cases ft) (simp add: FuncType_empty_def)

text \<open>
  Whatever the collaborator does, the exit handler hands no value back to the guest: it
  ends the process, or it gives the interpreter a trap (the line marked "should never be
  reached"). The guest memory is not touched either way.
\<close>
lemma proc_exit_never_resumes:
  "(case proc_exit w args memory h of
      (Returns r, memory', h') \<Rightarrow> r = Trap \<and> memory' = memory
    | (Exits code, memory', h') \<Rightarrow> memory' = memory)"
  by (simp add: proc_exit_def split: prod.splits call.splits)

subsection \<open>The stages of the runner\<close>

lemma run_init_fails:
  "init w argc argv h0 = (st, h1) \<Longrightarrow> st \<noteq> 0 \<Longrightarrow>
   run I w b argc argv err h0 =
     (Returned False, err @ ''Failed to initialise UVWASI: '' @ endl, h1)"
  by (simp add: run_def)

lemma run_parse_fails:
  "init w argc argv h0 = (0, h1) \<Longrightarrow> parse I b = Inl e \<Longrightarrow>
   run I w b argc argv err h0 = (Thrown e, err, h1)"
  by (simp add: run_def)

lemma run_resolve_fails:
  "init w argc argv h0 = (0, h1) \<Longrightarrow> parse I b = Inr m \<Longrightarrow>
   resolve_imported_functions I m (wasi_functions w) = Inl e \<Longrightarrow>
   run I w b argc argv err h0 = (Thrown e, err, h1)"
  by (simp add: run_def)

lemma run_instantiate_fails:
  "init w argc argv h0 = (0, h1) \<Longrightarrow> parse I b = Inr m \<Longrightarrow>
   resolve_imported_functions I m (wasi_functions w) = Inr x \<Longrightarrow>
   instantiate I m x [] [] [] (MaxMemoryPagesLimit I) = Inl e \<Longrightarrow>
   run I w b argc argv err h0 = (Thrown e, err, h1)"
  by (simp add: run_def)

text \<open>Once there is an instance, \<open>run\<close> is its three checks and the execution.\<close>
lemma run_checks:
  "init w argc argv h0 = (0, h1) \<Longrightarrow> parse I b = Inr m \<Longrightarrow>
   resolve_imported_functions I m (wasi_functions w) = Inr x \<Longrightarrow>
   instantiate I m x [] [] [] (MaxMemoryPagesLimit I) = Inr (Some inst) \<Longrightarrow>
   run I w b argc argv err h0 =
     (case find_exported_function_index I (instance_module I inst) ''_start'' of
         None \<Rightarrow>
           (Returned False, err @ ''File is not WASI compatible (_start not found)'' @ endl, h1)
       | Some start_function \<Rightarrow>
      if get_function_type I (instance_module I inst) start_function \<noteq> FuncType_empty then
        (Returned False,
         err @ ''File is not WASI compatible (_start has invalid signature)'' @ endl, h1)
      else if find_exported_memory I inst ''memory'' = None then
        (Returned False, err @ ''File is not WASI compatible (no memory exported)'' @ endl, h1)
      else
      (case execute I inst start_function [] h1 of
         (Exits code, h2) \<Rightarrow> (Exited code, err, h2)
       | (Returns result, h2) \<Rightarrow>
           if trapped result then
             (Returned False, err @ ''Execution aborted with WebAssembly trap'' @ endl, h2)
           else if has_value result then (AssertionFailed ''!result.has_value'', err, h2)
           else (Returned True, err, h2)))"
  by (simp add: run_def)

subsection \<open>The small collaborators\<close>

lemma toy_init: "init (toy_wasi st) argc argv h = (st, h @ [''init''])"
  by (simp add: toy_wasi_def)

lemma toy_parse: "parse (toy_interp tm) wasm_prefix = Inr tm"
  by (simp add: toy_interp_def wasm_prefix_def)

lemma toy_parse_empty:
  "parse (toy_interp tm) [] = Inl (malformed_binary ''invalid wasm module prefix'')"
  by (simp add: toy_interp_def)

lemma toy_resolve:
  "resolve_imported_functions (toy_interp tm) m (wasi_functions w) =
     (if list_all (\<lambda>n. n \<in> set (map imp_name (wasi_functions w))) (toy_imports m)
      then Inr (map (\<lambda>f. (imp_name f, imp_function f)) (wasi_functions w))
      else Inl (import_resolution_failure ''imported function not found''))"
  by (simp add: toy_interp_def)

lemma toy_instantiate:
  "instantiate (toy_interp tm) m x [] [] [] (MaxMemoryPagesLimit (toy_interp tm)) =
     (if 65536 < toy_pages m then Inl (instantiation_failure ''memory limit exceeded'')
      else Inr (Some (m, x)))"
  by (simp add: toy_interp_def)

lemma toy_lookups:
  "instance_module (toy_interp tm) inst = fst inst"
  "find_exported_function_index (toy_interp tm) m ''_start'' =
     (if toy_start m \<noteq> None then Some 0 else None)"
  "get_function_type (toy_interp tm) m idx =
     (case toy_start m of Some ft \<Rightarrow> ft | None \<Rightarrow> FuncType_empty)"
  "find_exported_memory (toy_interp tm) inst ''memory'' =
     (if toy_memory (fst inst) then Some [] else None)"
  "execute (toy_interp tm) inst idx args h =
     toy_calls (snd inst) (toy_body (fst inst)) (replicate 8 0) h (toy_result (fst inst))"
  by (simp_all add: toy_interp_def)

lemma toy_names:
  "map imp_name (wasi_functions w) =
     [''proc_exit'', ''fd_read'', ''fd_write'', ''fd_prestat_get'', ''fd_prestat_dir_name'',
      ''environ_sizes_get'', ''environ_get'']"
  by (simp add: wasi_functions_def)

lemma type_sound_typed_results: "type_sound (typed_results I)"
  by (auto simp: type_sound_def typed_results_def split: prod.splits call.splits if_splits)

section \<open>The claims\<close>

subsection \<open>Process exit\<close>

text \<open>
  C1. For every u32 exit code, 0 included, a guest call of \<open>proc_exit\<close> ends the run
  with a process exit that carries exactly that code, and control does not come back to
  the caller. With the collaborator's terminate operation as the spec gives it, the
  handler called with the code in its argument slot ends the process with that code and
  returns nothing; and when the execution of the entry function ends the process with a
  code, \<open>run\<close> ends with that same code, writes nothing to the error stream and returns
  no boolean.
\<close>
theorem proc_exit_ends_run:
  assumes "wasi_proc_exit w = terminate"
  shows "proc_exit w [Value_u32 code] memory h = (Exits code, memory, h) \<and>
    (init w argc argv h0 = (0, h1) \<and> parse I b = Inr m \<and>
     resolve_imported_functions I m (wasi_functions w) = Inr x \<and>
     instantiate I m x [] [] [] (MaxMemoryPagesLimit I) = Inr (Some inst) \<and>
     find_exported_function_index I (instance_module I inst) ''_start'' = Some start \<and>
     get_function_type I (instance_module I inst) start = FuncType_empty \<and>
     find_exported_memory I inst ''memory'' = Some mem \<and>
     execute I inst start [] h1 = (Exits code, h2) \<longrightarrow>
     run I w b argc argv err h0 = (Exited code, err, h2))"
  using assms
  by (simp add: proc_exit_def terminate_def as_u32_Value_u32 run_checks)

text \<open>
  The codes 0 and \<open>2^32 - 1\<close> at the handler, and a run whose entry function writes,
  calls \<open>proc_exit(0)\<close> and would write again: the second write never happens.
\<close>
theorem proc_exit_ends_run_witness:
  "wasi_proc_exit (toy_wasi 0) = terminate \<and>
   proc_exit (toy_wasi 0) [Value_u32 0] [] [] = (Exits 0, [], []) \<and>
   proc_exit (toy_wasi 0) [Value_u32 4294967295] [7] [''init''] =
     (Exits 4294967295, [7], [''init'']) \<and>
   run (toy_interp (toy_ok\<lparr>toy_imports := [''fd_write'', ''proc_exit''],
          toy_body := [(''fd_write'', [1, 0, 1, 4]), (''proc_exit'', [Value_u32 0]),
                       (''fd_write'', [1, 0, 1, 4])]\<rparr>))
     (toy_wasi 0) wasm_prefix 1 [''a.wasm''] [] [] = (Exited 0, [], [''init'', ''fd_write''])"
proof -
  let ?w = "toy_wasi 0"
  let ?x = "map (\<lambda>f. (imp_name f, imp_function f)) (wasi_functions ?w)"
  let ?tm = "toy_ok\<lparr>toy_imports := [''fd_write'', ''proc_exit''],
          toy_body := [(''fd_write'', [1, 0, 1, 4]), (''proc_exit'', [Value_u32 0]),
                       (''fd_write'', [1, 0, 1, 4])]\<rparr>"
  let ?I = "toy_interp ?tm :: string list toy_interp_t"
  have t: "wasi_proc_exit ?w = terminate"
    by (simp add: toy_wasi_def)
  note a = proc_exit_ends_run [OF t, where code = 0 and memory = "[]" and h = "[]",
      THEN conjunct1]
  note b = proc_exit_ends_run [OF t, where code = 4294967295 and memory = "[7]"
      and h = "[''init'']", THEN conjunct1]
  have 1: "init ?w 1 [''a.wasm''] [] = (0, [''init''])"
    by (simp add: toy_init)
  have 3: "resolve_imported_functions ?I ?tm (wasi_functions ?w) = Inr ?x"
    by (simp add: toy_resolve toy_names)
  have 4: "instantiate ?I ?tm ?x [] [] [] (MaxMemoryPagesLimit ?I) = Inr (Some (?tm, ?x))"
    by (simp add: toy_instantiate toy_ok_def)
  have 5: "find_exported_function_index ?I (instance_module ?I (?tm, ?x)) ''_start'' = Some 0"
    by (simp add: toy_lookups toy_ok_def)
  have 6: "get_function_type ?I (instance_module ?I (?tm, ?x)) 0 = FuncType_empty"
    by (simp add: toy_lookups toy_ok_def)
  have 7: "find_exported_memory ?I (?tm, ?x) ''memory'' = Some []"
    by (simp add: toy_lookups toy_ok_def)
  have 8: "execute ?I (?tm, ?x) 0 [] [''init''] = (Exits 0, [''init'', ''fd_write''])"
    by (simp add: toy_lookups wasi_functions_def fd_write_def proc_exit_def toy_wasi_def
        terminate_def Result_def as_u32_Value_u32)
  from 1 toy_parse [of ?tm] 3 4 5 6 7 8
  have c: "run ?I ?w wasm_prefix 1 [''a.wasm''] [] [] = (Exited 0, [], [''init'', ''fd_write''])"
    by (intro proc_exit_ends_run [OF t, where code = 0 and memory = "[]" and h = "[]",
          THEN conjunct2, THEN mp]) simp
  from t a b c show ?thesis
    by simp
qed

subsection \<open>The unsupported stubs\<close>



subsection \<open>Structural-contract errors\<close>

text \<open>
  C3, as the code has it. The claim reads: on every input with a structural-contract
  error (malformed binary, import-resolution failure, memory-limit violation, missing
  entry export, wrong entry signature, missing memory export) \<open>run\<close> writes a diagnostic
  to the error stream and returns false, and no guest code executes. That holds for the
  three checks \<open>run\<close> makes itself. A failure of the parser, of import resolution or of
  instantiation (a memory-limit violation is one) is not caught by \<open>run\<close>: the error
  leaves \<open>run\<close> as it was raised, nothing is written to the error stream and no
  boolean is returned. In all six cases the outcome is the same whatever \<open>execute\<close>
  would do, and the host state is the one \<open>init\<close> left: no guest code runs. The
  statement is for a collaborator that \<open>init\<close> has initialised (status 0).
\<close>
theorem run_structural_errors:
  assumes "init w argc argv h0 = (0, h1)"
  shows
    "(parse I b = Inl e \<longrightarrow>
        run (I\<lparr>execute := ex\<rparr>) w b argc argv err h0 = (Thrown e, err, h1)) \<and>
     (parse I b = Inr m \<and> resolve_imported_functions I m (wasi_functions w) = Inl e \<longrightarrow>
        run (I\<lparr>execute := ex\<rparr>) w b argc argv err h0 = (Thrown e, err, h1)) \<and>
     (parse I b = Inr m \<and> resolve_imported_functions I m (wasi_functions w) = Inr x \<and>
      instantiate I m x [] [] [] (MaxMemoryPagesLimit I) = Inl e \<longrightarrow>
        run (I\<lparr>execute := ex\<rparr>) w b argc argv err h0 = (Thrown e, err, h1)) \<and>
     (parse I b = Inr m \<and> resolve_imported_functions I m (wasi_functions w) = Inr x \<and>
      instantiate I m x [] [] [] (MaxMemoryPagesLimit I) = Inr (Some inst) \<and>
      find_exported_function_index I (instance_module I inst) ''_start'' = None \<longrightarrow>
        run (I\<lparr>execute := ex\<rparr>) w b argc argv err h0 =
          (Returned False, err @ ''File is not WASI compatible (_start not found)'' @ endl, h1)) \<and>
     (parse I b = Inr m \<and> resolve_imported_functions I m (wasi_functions w) = Inr x \<and>
      instantiate I m x [] [] [] (MaxMemoryPagesLimit I) = Inr (Some inst) \<and>
      find_exported_function_index I (instance_module I inst) ''_start'' = Some start \<and>
      get_function_type I (instance_module I inst) start \<noteq> FuncType_empty \<longrightarrow>
        run (I\<lparr>execute := ex\<rparr>) w b argc argv err h0 =
          (Returned False,
           err @ ''File is not WASI compatible (_start has invalid signature)'' @ endl, h1)) \<and>
     (parse I b = Inr m \<and> resolve_imported_functions I m (wasi_functions w) = Inr x \<and>
      instantiate I m x [] [] [] (MaxMemoryPagesLimit I) = Inr (Some inst) \<and>
      find_exported_function_index I (instance_module I inst) ''_start'' = Some start \<and>
      get_function_type I (instance_module I inst) start = FuncType_empty \<and>
      find_exported_memory I inst ''memory'' = None \<longrightarrow>
        run (I\<lparr>execute := ex\<rparr>) w b argc argv err h0 =
          (Returned False, err @ ''File is not WASI compatible (no memory exported)'' @ endl, h1))"
proof -
  let ?J = "I\<lparr>execute := ex\<rparr>"
  have c: "parse I b = Inr m \<Longrightarrow> resolve_imported_functions I m (wasi_functions w) = Inr x \<Longrightarrow>
      instantiate I m x [] [] [] (MaxMemoryPagesLimit I) = Inr (Some inst) \<Longrightarrow>
      run ?J w b argc argv err h0 =
     (case find_exported_function_index ?J (instance_module ?J inst) ''_start'' of
         None \<Rightarrow>
           (Returned False, err @ ''File is not WASI compatible (_start not found)'' @ endl, h1)
       | Some start_function \<Rightarrow>
      if get_function_type ?J (instance_module ?J inst) start_function \<noteq> FuncType_empty then
        (Returned False,
         err @ ''File is not WASI compatible (_start has invalid signature)'' @ endl, h1)
      else if find_exported_memory ?J inst ''memory'' = None then
        (Returned False, err @ ''File is not WASI compatible (no memory exported)'' @ endl, h1)
      else
      (case execute ?J inst start_function [] h1 of
         (Exits code, h2) \<Rightarrow> (Exited code, err, h2)
       | (Returns result, h2) \<Rightarrow>
           if trapped result then
             (Returned False, err @ ''Execution aborted with WebAssembly trap'' @ endl, h2)
           else if has_value result then (AssertionFailed ''!result.has_value'', err, h2)
           else (Returned True, err, h2)))"
    using assms by (intro run_checks) simp_all
  have 1: "parse I b = Inl e \<longrightarrow> run ?J w b argc argv err h0 = (Thrown e, err, h1)"
    using assms by (simp add: run_parse_fails)
  have 2: "parse I b = Inr m \<and> resolve_imported_functions I m (wasi_functions w) = Inl e \<longrightarrow>
        run ?J w b argc argv err h0 = (Thrown e, err, h1)"
    using assms by (simp add: run_resolve_fails [where m = m])
  have 3: "parse I b = Inr m \<and> resolve_imported_functions I m (wasi_functions w) = Inr x \<and>
      instantiate I m x [] [] [] (MaxMemoryPagesLimit I) = Inl e \<longrightarrow>
        run ?J w b argc argv err h0 = (Thrown e, err, h1)"
    using assms by (simp add: run_instantiate_fails [where m = m and x = x])
  from 1 2 3 c show ?thesis
    by simp
qed

text \<open>
  One run for each of the six errors: an empty binary, an import that is not in the
  table, a module asking for more pages than the limit, a module without \<open>_start\<close>,
  a \<open>_start\<close> that returns an i32, and a module that exports no memory.
\<close>
theorem run_structural_errors_witness:
  "run (toy_interp toy_ok) (toy_wasi 0) [] 1 [''a.wasm''] [] [] =
     (Thrown (malformed_binary ''invalid wasm module prefix''), [], [''init'']) \<and>
   run (toy_interp (toy_ok\<lparr>toy_imports := [''fd_write'', ''fd_seek'']\<rparr>)) (toy_wasi 0)
       wasm_prefix 1 [''a.wasm''] [] [] =
     (Thrown (import_resolution_failure ''imported function not found''), [], [''init'']) \<and>
   run (toy_interp (toy_ok\<lparr>toy_pages := 65537\<rparr>)) (toy_wasi 0) wasm_prefix 1 [''a.wasm''] [] [] =
     (Thrown (instantiation_failure ''memory limit exceeded''), [], [''init'']) \<and>
   run (toy_interp (toy_ok\<lparr>toy_start := None\<rparr>)) (toy_wasi 0) wasm_prefix 1 [''a.wasm''] [] [] =
     (Returned False, ''File is not WASI compatible (_start not found)'' @ [CHR 0x0A],
      [''init'']) \<and>
   run (toy_interp (toy_ok\<lparr>toy_start := Some \<lparr>inputs = [], outputs = [i32]\<rparr>\<rparr>)) (toy_wasi 0)
       wasm_prefix 1 [''a.wasm''] [] [] =
     (Returned False, ''File is not WASI compatible (_start has invalid signature)'' @ [CHR 0x0A],
      [''init'']) \<and>
   run (toy_interp (toy_ok\<lparr>toy_memory := False\<rparr>)) (toy_wasi 0) wasm_prefix 1 [''a.wasm''] [] [] =
     (Returned False, ''File is not WASI compatible (no memory exported)'' @ [CHR 0x0A],
      [''init''])"
proof -
  let ?w = "toy_wasi 0"
  let ?x = "map (\<lambda>f. (imp_name f, imp_function f)) (wasi_functions ?w)"
  note T = run_structural_errors [OF toy_init [of 0 1 "[''a.wasm'']" "[]"]]
  let ?t1 = toy_ok
  have 1: "run (toy_interp ?t1) ?w [] 1 [''a.wasm''] [] [] =
     (Thrown (malformed_binary ''invalid wasm module prefix''), [], [''init''])"
    using T [where I = "toy_interp ?t1" and b = "[]" and ex = "execute (toy_interp ?t1)"
        and e = "malformed_binary ''invalid wasm module prefix''" and err = "[]",
        THEN conjunct1]
    by (simp add: toy_parse_empty)
  let ?t2 = "toy_ok\<lparr>toy_imports := [''fd_write'', ''fd_seek'']\<rparr>"
  have 2: "run (toy_interp ?t2) ?w wasm_prefix 1 [''a.wasm''] [] [] =
     (Thrown (import_resolution_failure ''imported function not found''), [], [''init''])"
    using T [where I = "toy_interp ?t2" and b = wasm_prefix and ex = "execute (toy_interp ?t2)"
        and m = ?t2 and e = "import_resolution_failure ''imported function not found''"
        and err = "[]", THEN conjunct2, THEN conjunct1]
    by (simp add: toy_parse toy_resolve toy_names)
  let ?t3 = "toy_ok\<lparr>toy_pages := 65537\<rparr>"
  have 3: "run (toy_interp ?t3) ?w wasm_prefix 1 [''a.wasm''] [] [] =
     (Thrown (instantiation_failure ''memory limit exceeded''), [], [''init''])"
    using T [where I = "toy_interp ?t3" and b = wasm_prefix and ex = "execute (toy_interp ?t3)"
        and m = ?t3 and x = ?x and e = "instantiation_failure ''memory limit exceeded''"
        and err = "[]", THEN conjunct2, THEN conjunct2, THEN conjunct1]
    by (simp add: toy_parse toy_resolve toy_instantiate toy_ok_def)
  let ?t4 = "toy_ok\<lparr>toy_start := None\<rparr>"
  have 4: "run (toy_interp ?t4) ?w wasm_prefix 1 [''a.wasm''] [] [] =
     (Returned False, ''File is not WASI compatible (_start not found)'' @ [CHR 0x0A], [''init''])"
    using T [where I = "toy_interp ?t4" and b = wasm_prefix and ex = "execute (toy_interp ?t4)"
        and m = ?t4 and x = ?x and inst = "(?t4, ?x)" and err = "[]",
        THEN conjunct2, THEN conjunct2, THEN conjunct2, THEN conjunct1]
    by (simp add: toy_parse toy_resolve toy_instantiate toy_lookups toy_ok_def endl_def)
  let ?t5 = "toy_ok\<lparr>toy_start := Some \<lparr>inputs = [], outputs = [i32]\<rparr>\<rparr>"
  have 5: "run (toy_interp ?t5) ?w wasm_prefix 1 [''a.wasm''] [] [] =
     (Returned False, ''File is not WASI compatible (_start has invalid signature)'' @ [CHR 0x0A],
      [''init''])"
    using T [where I = "toy_interp ?t5" and b = wasm_prefix and ex = "execute (toy_interp ?t5)"
        and m = ?t5 and x = ?x and inst = "(?t5, ?x)" and start = 0 and err = "[]",
        THEN conjunct2, THEN conjunct2, THEN conjunct2, THEN conjunct2, THEN conjunct1]
    by (simp add: toy_parse toy_resolve toy_instantiate toy_lookups toy_ok_def endl_def
        FuncType_empty_def)
  let ?t6 = "toy_ok\<lparr>toy_memory := False\<rparr>"
  have 6: "run (toy_interp ?t6) ?w wasm_prefix 1 [''a.wasm''] [] [] =
     (Returned False, ''File is not WASI compatible (no memory exported)'' @ [CHR 0x0A],
      [''init''])"
    using T [where I = "toy_interp ?t6" and b = wasm_prefix and ex = "execute (toy_interp ?t6)"
        and m = ?t6 and x = ?x and inst = "(?t6, ?x)" and start = 0 and err = "[]",
        THEN conjunct2, THEN conjunct2, THEN conjunct2, THEN conjunct2, THEN conjunct2]
    by (simp add: toy_parse toy_resolve toy_instantiate toy_lookups toy_ok_def endl_def)
  from 1 2 3 4 5 6 show ?thesis
    by simp
qed

text \<open>
  The claim as it is written fails on a malformed binary. The parser rejects the empty
  binary; \<open>run\<close>, with an initialised collaborator, then does not return false and
  leaves the error stream empty: the parser's error is its outcome.
\<close>
theorem run_malformed_binary_counterexample:
  "parse (toy_interp toy_ok) [] = Inl (malformed_binary ''invalid wasm module prefix'') \<and>
   run (toy_interp toy_ok) (toy_wasi 0) [] 1 [''a.wasm''] [] [] =
     (Thrown (malformed_binary ''invalid wasm module prefix''), [], [''init'']) \<and>
   fst (run (toy_interp toy_ok) (toy_wasi 0) [] 1 [''a.wasm''] [] []) \<noteq> Returned False \<and>
   fst (snd (run (toy_interp toy_ok) (toy_wasi 0) [] 1 [''a.wasm''] [] [])) = []"
  by (simp add: run_parse_fails [OF toy_init toy_parse_empty] toy_parse_empty)

subsection \<open>The entry contract\<close>

text \<open>
  C4, as the code has it. The claim reads: for every module that does not export a
  function named \<open>_start\<close>, \<open>run\<close> rejects the module (false, with a diagnostic)
  before any host-call handler is invoked, so no host side effect of a guest call is
  observed. The lookup of \<open>_start\<close> comes after parsing, import resolution and
  instantiation, whose failures \<open>run\<close> does not catch; so the statement is for a
  binary that parses, resolves and instantiates to an instance. If the module of that
  instance has no such export, \<open>run\<close> returns false; the diagnostic is the one of the
  missing entry point (or, when \<open>init\<close> answered with a status other than 0, the one of
  the failed initialisation); and the outcome is the same whatever \<open>execute\<close> would
  do: \<open>run\<close> starts no execution, so no handler is invoked by guest code that \<open>run\<close>
  starts. The host state is the one \<open>init\<close> left, with instantiation taken as the
  spec's interface gives it, a function that runs no guest code.
\<close>
theorem run_rejects_without_start:
  assumes "init w argc argv h0 = (st, h1)"
    and "parse I b = Inr m"
    and "resolve_imported_functions I m (wasi_functions w) = Inr x"
    and "instantiate I m x [] [] [] (MaxMemoryPagesLimit I) = Inr (Some inst)"
    and "find_exported_function_index I (instance_module I inst) ''_start'' = None"
  shows "run (I\<lparr>execute := ex\<rparr>) w b argc argv err h0 =
     (Returned False,
      err @ (if st = 0 then ''File is not WASI compatible (_start not found)''
             else ''Failed to initialise UVWASI: '') @ endl,
      h1)"
proof (cases "st = 0")
  case True
  with assms show ?thesis
    by (simp add: run_checks [where I = "I\<lparr>execute := ex\<rparr>" and inst = inst and m = m and x = x])
next
  case False
  with assms show ?thesis
    by (simp add: run_init_fails)
qed

text \<open>
  A module without \<open>_start\<close> whose body would write to descriptor 1: the log of the
  collaborator holds \<open>init\<close> and nothing else.
\<close>
theorem run_rejects_without_start_witness:
  "init (toy_wasi 0) 1 [''a.wasm''] [] = (0, [''init'']) \<and>
   find_exported_function_index
     (toy_interp (toy_ok\<lparr>toy_start := None, toy_imports := [''fd_write''],
        toy_body := [(''fd_write'', [1, 0, 1, 4])]\<rparr>) :: string list toy_interp_t)
     (toy_ok\<lparr>toy_start := None, toy_imports := [''fd_write''],
        toy_body := [(''fd_write'', [1, 0, 1, 4])]\<rparr>) ''_start'' = None \<and>
   run (toy_interp (toy_ok\<lparr>toy_start := None, toy_imports := [''fd_write''],
          toy_body := [(''fd_write'', [1, 0, 1, 4])]\<rparr>))
       (toy_wasi 0) wasm_prefix 1 [''a.wasm''] [] [] =
     (Returned False, ''File is not WASI compatible (_start not found)'' @ [CHR 0x0A], [''init''])"
proof -
  let ?w = "toy_wasi 0"
  let ?x = "map (\<lambda>f. (imp_name f, imp_function f)) (wasi_functions ?w)"
  let ?tm = "toy_ok\<lparr>toy_start := None, toy_imports := [''fd_write''],
          toy_body := [(''fd_write'', [1, 0, 1, 4])]\<rparr>"
  let ?I = "toy_interp ?tm :: string list toy_interp_t"
  have 1: "init ?w 1 [''a.wasm''] [] = (0, [''init''])"
    by (simp add: toy_init)
  have 3: "resolve_imported_functions ?I ?tm (wasi_functions ?w) = Inr ?x"
    by (simp add: toy_resolve toy_names)
  have 4: "instantiate ?I ?tm ?x [] [] [] (MaxMemoryPagesLimit ?I) = Inr (Some (?tm, ?x))"
    by (simp add: toy_instantiate toy_ok_def)
  have 5: "find_exported_function_index ?I (instance_module ?I (?tm, ?x)) ''_start'' = None"
    by (simp add: toy_lookups)
  from run_rejects_without_start [where ex = "execute ?I" and err = "[]", OF 1 toy_parse 3 4 5]
    1 5
  show ?thesis
    by (simp add: toy_lookups endl_def)
qed

text \<open>
  The claim as it is written fails on a module without \<open>_start\<close> that imports a
  function the table does not have: import resolution fails first, and its error is the
  outcome of \<open>run\<close>, with nothing on the error stream.
\<close>
theorem run_without_start_counterexample:
  "find_exported_function_index
     (toy_interp (toy_ok\<lparr>toy_start := None, toy_imports := [''fd_seek'']\<rparr>)
      :: string list toy_interp_t)
     (toy_ok\<lparr>toy_start := None, toy_imports := [''fd_seek'']\<rparr>) ''_start'' = None \<and>
   run (toy_interp (toy_ok\<lparr>toy_start := None, toy_imports := [''fd_seek'']\<rparr>))
       (toy_wasi 0) wasm_prefix 1 [''a.wasm''] [] [] =
     (Thrown (import_resolution_failure ''imported function not found''), [], [''init'']) \<and>
   fst (run (toy_interp (toy_ok\<lparr>toy_start := None, toy_imports := [''fd_seek'']\<rparr>))
       (toy_wasi 0) wasm_prefix 1 [''a.wasm''] [] []) \<noteq> Returned False \<and>
   fst (snd (run (toy_interp (toy_ok\<lparr>toy_start := None, toy_imports := [''fd_seek'']\<rparr>))
       (toy_wasi 0) wasm_prefix 1 [''a.wasm''] [] [])) = []"
proof -
  let ?tm = "toy_ok\<lparr>toy_start := None, toy_imports := [''fd_seek'']\<rparr>"
  have "resolve_imported_functions (toy_interp ?tm) ?tm (wasi_functions (toy_wasi 0)) =
      Inl (import_resolution_failure ''imported function not found'')"
    by (simp add: toy_resolve toy_names)
  from run_resolve_fails [OF toy_init toy_parse this, of 1 "[''a.wasm'']" "[]" "[]"]
  show ?thesis
    by (simp add: toy_lookups)
qed

text \<open>
  C5, as the code has it. The claim reads: for every module whose exported entry function
  has a parameter or a result, any such signature, \<open>run\<close> rejects the module (false,
  with a diagnostic) without executing it. The comparison of the entry type comes after
  parsing, import resolution and instantiation, whose failures \<open>run\<close> does not catch;
  so the statement is for a binary that parses, resolves and instantiates to an instance.
  If the module of that instance exports \<open>_start\<close> with a type that has an input or an
  output, \<open>run\<close> returns false; the diagnostic is the one of the invalid signature (or
  the one of the failed initialisation); the host state is the one \<open>init\<close> left; and
  the outcome is the same whatever \<open>execute\<close> would do.
\<close>
theorem run_rejects_entry_signature:
  assumes "init w argc argv h0 = (st, h1)"
    and "parse I b = Inr m"
    and "resolve_imported_functions I m (wasi_functions w) = Inr x"
    and "instantiate I m x [] [] [] (MaxMemoryPagesLimit I) = Inr (Some inst)"
    and "find_exported_function_index I (instance_module I inst) ''_start'' = Some start"
    and "FuncType.inputs (get_function_type I (instance_module I inst) start) \<noteq> [] \<or>
         outputs (get_function_type I (instance_module I inst) start) \<noteq> []"
  shows "run (I\<lparr>execute := ex\<rparr>) w b argc argv err h0 =
     (Returned False,
      err @ (if st = 0 then ''File is not WASI compatible (_start has invalid signature)''
             else ''Failed to initialise UVWASI: '') @ endl,
      h1)"
proof (cases "st = 0")
  case True
  from assms(6) have "get_function_type I (instance_module I inst) start \<noteq> FuncType_empty"
    by (auto simp: FuncType_empty_iff)
  with True assms(1-5) show ?thesis
    by (simp add: run_checks [where I = "I\<lparr>execute := ex\<rparr>" and inst = inst and m = m and x = x])
next
  case False
  with assms show ?thesis
    by (simp add: run_init_fails)
qed

text \<open>A \<open>_start\<close> that takes one i32, in a module whose body would write.\<close>
theorem run_rejects_entry_signature_witness:
  "get_function_type
     (toy_interp (toy_ok\<lparr>toy_start := Some \<lparr>inputs = [i32], outputs = []\<rparr>,
        toy_imports := [''fd_write''], toy_body := [(''fd_write'', [1, 0, 1, 4])]\<rparr>)
      :: string list toy_interp_t)
     (toy_ok\<lparr>toy_start := Some \<lparr>inputs = [i32], outputs = []\<rparr>,
        toy_imports := [''fd_write''], toy_body := [(''fd_write'', [1, 0, 1, 4])]\<rparr>) 0 =
     \<lparr>inputs = [i32], outputs = []\<rparr> \<and>
   run (toy_interp (toy_ok\<lparr>toy_start := Some \<lparr>inputs = [i32], outputs = []\<rparr>,
          toy_imports := [''fd_write''], toy_body := [(''fd_write'', [1, 0, 1, 4])]\<rparr>))
       (toy_wasi 0) wasm_prefix 1 [''a.wasm''] [] [] =
     (Returned False, ''File is not WASI compatible (_start has invalid signature)'' @ [CHR 0x0A],
      [''init''])"
proof -
  let ?w = "toy_wasi 0"
  let ?x = "map (\<lambda>f. (imp_name f, imp_function f)) (wasi_functions ?w)"
  let ?tm = "toy_ok\<lparr>toy_start := Some \<lparr>inputs = [i32], outputs = []\<rparr>,
          toy_imports := [''fd_write''], toy_body := [(''fd_write'', [1, 0, 1, 4])]\<rparr>"
  let ?I = "toy_interp ?tm :: string list toy_interp_t"
  have 1: "init ?w 1 [''a.wasm''] [] = (0, [''init''])"
    by (simp add: toy_init)
  have 3: "resolve_imported_functions ?I ?tm (wasi_functions ?w) = Inr ?x"
    by (simp add: toy_resolve toy_names)
  have 4: "instantiate ?I ?tm ?x [] [] [] (MaxMemoryPagesLimit ?I) = Inr (Some (?tm, ?x))"
    by (simp add: toy_instantiate toy_ok_def)
  have 5: "find_exported_function_index ?I (instance_module ?I (?tm, ?x)) ''_start'' = Some 0"
    by (simp add: toy_lookups)
  have 6: "FuncType.inputs (get_function_type ?I (instance_module ?I (?tm, ?x)) 0) \<noteq> [] \<or>
         outputs (get_function_type ?I (instance_module ?I (?tm, ?x)) 0) \<noteq> []"
    by (simp add: toy_lookups)
  from run_rejects_entry_signature [where ex = "execute ?I" and err = "[]",
      OF 1 toy_parse 3 4 5 6]
  show ?thesis
    by (simp add: toy_lookups endl_def)
qed

text \<open>
  The claim as it is written fails on a module whose \<open>_start\<close> takes an i32 and returns
  an i64 and that asks for more memory pages than the limit: instantiation fails first,
  and its error is the outcome of \<open>run\<close>, with nothing on the error stream.
\<close>
theorem run_entry_signature_counterexample:
  "get_function_type
     (toy_interp (toy_ok\<lparr>toy_start := Some \<lparr>inputs = [i32], outputs = [i64]\<rparr>,
        toy_pages := 65537\<rparr>) :: string list toy_interp_t)
     (toy_ok\<lparr>toy_start := Some \<lparr>inputs = [i32], outputs = [i64]\<rparr>, toy_pages := 65537\<rparr>) 0 =
     \<lparr>inputs = [i32], outputs = [i64]\<rparr> \<and>
   run (toy_interp (toy_ok\<lparr>toy_start := Some \<lparr>inputs = [i32], outputs = [i64]\<rparr>,
          toy_pages := 65537\<rparr>))
       (toy_wasi 0) wasm_prefix 1 [''a.wasm''] [] [] =
     (Thrown (instantiation_failure ''memory limit exceeded''), [], [''init'']) \<and>
   fst (run (toy_interp (toy_ok\<lparr>toy_start := Some \<lparr>inputs = [i32], outputs = [i64]\<rparr>,
          toy_pages := 65537\<rparr>))
       (toy_wasi 0) wasm_prefix 1 [''a.wasm''] [] []) \<noteq> Returned False \<and>
   fst (snd (run (toy_interp (toy_ok\<lparr>toy_start := Some \<lparr>inputs = [i32], outputs = [i64]\<rparr>,
          toy_pages := 65537\<rparr>))
       (toy_wasi 0) wasm_prefix 1 [''a.wasm''] [] [])) = []"
proof -
  let ?w = "toy_wasi 0"
  let ?x = "map (\<lambda>f. (imp_name f, imp_function f)) (wasi_functions ?w)"
  let ?tm = "toy_ok\<lparr>toy_start := Some \<lparr>inputs = [i32], outputs = [i64]\<rparr>, toy_pages := 65537\<rparr>"
  let ?I = "toy_interp ?tm :: string list toy_interp_t"
  have 3: "resolve_imported_functions ?I ?tm (wasi_functions ?w) = Inr ?x"
    by (simp add: toy_resolve toy_ok_def)
  have 4: "instantiate ?I ?tm ?x [] [] [] (MaxMemoryPagesLimit ?I) =
      Inl (instantiation_failure ''memory limit exceeded'')"
    by (simp add: toy_instantiate)
  from run_instantiate_fails [OF toy_init toy_parse 3 4, of 1 "[''a.wasm'']" "[]" "[]"]
  show ?thesis
    by (simp add: toy_lookups)
qed

text \<open>
  C6, as the code has it. The claim reads: for every module that does not export a memory
  named \<open>memory\<close>, \<open>run\<close> rejects the module (false, with a diagnostic) without
  executing its entry function. The lookup of the memory comes after parsing, import
  resolution and instantiation, whose failures \<open>run\<close> does not catch; so the statement
  is for a binary that parses, resolves and instantiates to an instance. If that instance
  has no such export, \<open>run\<close> returns false; the diagnostic is the one of the first
  check that fails (the initialisation, the entry point, its signature, and last the
  memory); the host state is the one \<open>init\<close> left; and the outcome is the same
  whatever \<open>execute\<close> would do.
\<close>
theorem run_rejects_without_memory:
  assumes "init w argc argv h0 = (st, h1)"
    and "parse I b = Inr m"
    and "resolve_imported_functions I m (wasi_functions w) = Inr x"
    and "instantiate I m x [] [] [] (MaxMemoryPagesLimit I) = Inr (Some inst)"
    and "find_exported_memory I inst ''memory'' = None"
  shows "run (I\<lparr>execute := ex\<rparr>) w b argc argv err h0 =
     (Returned False,
      err @ (if st \<noteq> 0 then ''Failed to initialise UVWASI: ''
             else case find_exported_function_index I (instance_module I inst) ''_start'' of
                    None \<Rightarrow> ''File is not WASI compatible (_start not found)''
                  | Some start \<Rightarrow>
                      if get_function_type I (instance_module I inst) start \<noteq> FuncType_empty
                      then ''File is not WASI compatible (_start has invalid signature)''
                      else ''File is not WASI compatible (no memory exported)'') @ endl,
      h1)"
proof (cases "st = 0")
  case True
  with assms show ?thesis
    by (simp add: run_checks [where I = "I\<lparr>execute := ex\<rparr>" and inst = inst and m = m and x = x]
        split: option.splits)
next
  case False
  with assms show ?thesis
    by (simp add: run_init_fails)
qed

text \<open>
  A module with a good \<open>_start\<close> and no exported memory, and one that has neither.
\<close>
theorem run_rejects_without_memory_witness:
  "find_exported_memory
     (toy_interp (toy_ok\<lparr>toy_memory := False\<rparr>) :: string list toy_interp_t)
     (toy_ok\<lparr>toy_memory := False\<rparr>, []) ''memory'' = None \<and>
   run (toy_interp (toy_ok\<lparr>toy_memory := False, toy_imports := [''fd_write''],
          toy_body := [(''fd_write'', [1, 0, 1, 4])]\<rparr>))
       (toy_wasi 0) wasm_prefix 1 [''a.wasm''] [] [] =
     (Returned False, ''File is not WASI compatible (no memory exported)'' @ [CHR 0x0A],
      [''init'']) \<and>
   run (toy_interp (toy_ok\<lparr>toy_memory := False, toy_start := None\<rparr>))
       (toy_wasi 0) wasm_prefix 1 [''a.wasm''] [] [] =
     (Returned False, ''File is not WASI compatible (_start not found)'' @ [CHR 0x0A],
      [''init''])"
proof -
  let ?w = "toy_wasi 0"
  let ?x = "map (\<lambda>f. (imp_name f, imp_function f)) (wasi_functions ?w)"
  let ?tm = "toy_ok\<lparr>toy_memory := False, toy_imports := [''fd_write''],
          toy_body := [(''fd_write'', [1, 0, 1, 4])]\<rparr>"
  let ?I = "toy_interp ?tm :: string list toy_interp_t"
  have 1: "init ?w 1 [''a.wasm''] [] = (0, [''init''])"
    by (simp add: toy_init)
  have 3: "resolve_imported_functions ?I ?tm (wasi_functions ?w) = Inr ?x"
    by (simp add: toy_resolve toy_names)
  have 4: "instantiate ?I ?tm ?x [] [] [] (MaxMemoryPagesLimit ?I) = Inr (Some (?tm, ?x))"
    by (simp add: toy_instantiate toy_ok_def)
  have 5: "find_exported_memory ?I (?tm, ?x) ''memory'' = None"
    by (simp add: toy_lookups)
  let ?tn = "toy_ok\<lparr>toy_memory := False, toy_start := None\<rparr>"
  let ?J = "toy_interp ?tn :: string list toy_interp_t"
  have 13: "resolve_imported_functions ?J ?tn (wasi_functions ?w) = Inr ?x"
    by (simp add: toy_resolve toy_ok_def)
  have 14: "instantiate ?J ?tn ?x [] [] [] (MaxMemoryPagesLimit ?J) = Inr (Some (?tn, ?x))"
    by (simp add: toy_instantiate toy_ok_def)
  have 15: "find_exported_memory ?J (?tn, ?x) ''memory'' = None"
    by (simp add: toy_lookups)
  from run_rejects_without_memory [where ex = "execute ?I" and err = "[]",
      OF 1 toy_parse 3 4 5]
    run_rejects_without_memory [where ex = "execute ?J" and err = "[]",
      OF 1 toy_parse 13 14 15]
  show ?thesis
    by (simp add: toy_lookups endl_def toy_ok_def FuncType_empty_def)
qed

text \<open>
  The claim as it is written fails on a module without an exported memory that imports a
  function the table does not have: import resolution fails first, and its error is the
  outcome of \<open>run\<close>, with nothing on the error stream.
\<close>
theorem run_without_memory_counterexample:
  "find_exported_memory
     (toy_interp (toy_ok\<lparr>toy_memory := False, toy_imports := [''fd_seek'']\<rparr>)
      :: string list toy_interp_t)
     (toy_ok\<lparr>toy_memory := False, toy_imports := [''fd_seek'']\<rparr>, []) ''memory'' = None \<and>
   run (toy_interp (toy_ok\<lparr>toy_memory := False, toy_imports := [''fd_seek'']\<rparr>))
       (toy_wasi 0) wasm_prefix 1 [''a.wasm''] [] [] =
     (Thrown (import_resolution_failure ''imported function not found''), [], [''init'']) \<and>
   fst (run (toy_interp (toy_ok\<lparr>toy_memory := False, toy_imports := [''fd_seek'']\<rparr>))
       (toy_wasi 0) wasm_prefix 1 [''a.wasm''] [] []) \<noteq> Returned False \<and>
   fst (snd (run (toy_interp (toy_ok\<lparr>toy_memory := False, toy_imports := [''fd_seek'']\<rparr>))
       (toy_wasi 0) wasm_prefix 1 [''a.wasm''] [] [])) = []"
proof -
  let ?tm = "toy_ok\<lparr>toy_memory := False, toy_imports := [''fd_seek'']\<rparr>"
  have "resolve_imported_functions (toy_interp ?tm) ?tm (wasi_functions (toy_wasi 0)) =
      Inl (import_resolution_failure ''imported function not found'')"
    by (simp add: toy_resolve toy_names)
  from run_resolve_fails [OF toy_init toy_parse this, of 1 "[''a.wasm'']" "[]" "[]"]
  show ?thesis
    by (simp add: toy_lookups)
qed

subsection \<open>The table\<close>

text \<open>
  C7. The host-call registry is a fixed table under the single namespace
  \<open>wasi_snapshot_preview1\<close> with exactly seven entries: \<open>proc_exit\<close> (i32) to none,
  \<open>fd_read\<close> and \<open>fd_write\<close> (i32, i32, i32, i32) to i32, \<open>fd_prestat_get\<close>
  (i32, i32) to i32, \<open>fd_prestat_dir_name\<close> (i32, i32, i32) to i32,
  \<open>environ_sizes_get\<close> and \<open>environ_get\<close> (i32, i32) to i32; no namespace and name
  occurs twice. The handlers bound to the seven entries are listed as well.
\<close>
theorem wasi_functions_table:
  "map (\<lambda>f. (imp_module f, imp_name f, imp_inputs f, imp_output f)) (wasi_functions w) =
     [(''wasi_snapshot_preview1'', ''proc_exit'', [i32], None),
      (''wasi_snapshot_preview1'', ''fd_read'', [i32, i32, i32, i32], Some i32),
      (''wasi_snapshot_preview1'', ''fd_write'', [i32, i32, i32, i32], Some i32),
      (''wasi_snapshot_preview1'', ''fd_prestat_get'', [i32, i32], Some i32),
      (''wasi_snapshot_preview1'', ''fd_prestat_dir_name'', [i32, i32, i32], Some i32),
      (''wasi_snapshot_preview1'', ''environ_sizes_get'', [i32, i32], Some i32),
      (''wasi_snapshot_preview1'', ''environ_get'', [i32, i32], Some i32)] \<and>
   map imp_function (wasi_functions w) =
     [proc_exit w, fd_read w, fd_write w, fd_prestat_get w, return_enosys w,
      environ_sizes_get w, return_enosys w] \<and>
   length (wasi_functions w) = 7 \<and>
   distinct (map (\<lambda>f. (imp_module f, imp_name f)) (wasi_functions w))"
  by (simp add: wasi_functions_def ns_def)

subsection \<open>The supported handlers\<close>

text \<open>
  C8. Each of the handlers \<open>fd_read\<close>, \<open>fd_write\<close>, \<open>fd_prestat_get\<close> and
  \<open>environ_sizes_get\<close> invokes exactly one operation of the collaborator per call and
  returns the collaborator's numeric status as its single i32 result; the status is an
  ordinary return value and never interrupts the run. For any collaborator, argument
  slots, memory and host state: the handler returns (it does not end the process), its
  result has a value and is not a trap, the value read as an i32 is numerically the
  status of the one operation, called with the arguments read from the slots, and the
  memory and host state after the handler are those after that one operation.
\<close>
theorem handlers_surface_status:
  "surfaces (wasi_fd_read w memory (as_u32 a0) (as_u32 a1) (as_u32 a2) (as_u32 a3) h)
     (fd_read w [a0, a1, a2, a3] memory h) \<and>
   surfaces (wasi_fd_write w memory (as_u32 a0) (as_u32 a1) (as_u32 a2) (as_u32 a3) h)
     (fd_write w [a0, a1, a2, a3] memory h) \<and>
   surfaces (wasi_fd_prestat_get w memory (as_u32 a0) (as_u32 a1) h)
     (fd_prestat_get w [a0, a1] memory h) \<and>
   surfaces (wasi_environ_sizes_get w memory (as_u32 a0) (as_u32 a1) h)
     (environ_sizes_get w [a0, a1] memory h)"
  by (simp add: surfaces_def fd_read_def fd_write_def fd_prestat_get_def environ_sizes_get_def
      Result_def as_u32_Value_u32 unat_status split: prod.splits)

text \<open>
  A write to descriptor 1 gives status 0 and the memory the collaborator left; a refused
  \<open>fd_prestat_get\<close> gives status 8 as a value, not as a trap.
\<close>
theorem handlers_surface_status_witness:
  "fd_write (toy_wasi 0) [1, 0, 1, 4] (replicate 8 0) [] =
     (Returns (Result 0), (replicate 8 0)[4 := 2], [''fd_write'']) \<and>
   surfaces (0, (replicate 8 0)[4 := 2], [''fd_write''])
     (fd_write (toy_wasi 0) [1, 0, 1, 4] (replicate 8 0) []) \<and>
   surfaces (8, replicate 8 0, [''fd_prestat_get''])
     (fd_prestat_get (toy_wasi 0) [3, 0] (replicate 8 0) [])"
  using handlers_surface_status [of "toy_wasi 0" "replicate 8 0" 1 0 1 4 "[]"]
    handlers_surface_status [of "toy_wasi 0" "replicate 8 0" 3 0 1 4 "[]"]
  by (simp add: toy_wasi_def as_u32_def fd_write_def Value_u32_def)

subsection \<open>Traps and completion\<close>

text \<open>
  C9. For every execution of the entry function that the interpreter reports as trapped,
  \<open>run\<close> reports an execution failure (a diagnostic on the error stream and false) and
  the whole run ends; the trap does not become a status code of a call and nothing is
  resumed. When \<open>run\<close> reaches the execution and its result is trapped, \<open>run\<close>
  returns false with the trap diagnostic, and the host state is the one the execution
  left: nothing is called after it.
\<close>
theorem run_reports_trap:
  assumes "init w argc argv h0 = (0, h1)"
    and "parse I b = Inr m"
    and "resolve_imported_functions I m (wasi_functions w) = Inr x"
    and "instantiate I m x [] [] [] (MaxMemoryPagesLimit I) = Inr (Some inst)"
    and "find_exported_function_index I (instance_module I inst) ''_start'' = Some start"
    and "get_function_type I (instance_module I inst) start = FuncType_empty"
    and "find_exported_memory I inst ''memory'' = Some mem"
    and "execute I inst start [] h1 = (Returns r, h2)"
    and "trapped r"
  shows "run I w b argc argv err h0 =
     (Returned False, err @ ''Execution aborted with WebAssembly trap'' @ endl, h2)"
  using assms by (simp add: run_checks)

text \<open>An entry function that writes once and then traps.\<close>
theorem run_reports_trap_witness:
  "execute (toy_interp (toy_ok\<lparr>toy_imports := [''fd_write''],
          toy_body := [(''fd_write'', [1, 0, 1, 4])], toy_result := Trap\<rparr>))
     (toy_ok\<lparr>toy_imports := [''fd_write''],
          toy_body := [(''fd_write'', [1, 0, 1, 4])], toy_result := Trap\<rparr>,
      map (\<lambda>f. (imp_name f, imp_function f)) (wasi_functions (toy_wasi 0))) 0 [] [''init''] =
     (Returns Trap, [''init'', ''fd_write'']) \<and>
   trapped Trap \<and>
   run (toy_interp (toy_ok\<lparr>toy_imports := [''fd_write''],
          toy_body := [(''fd_write'', [1, 0, 1, 4])], toy_result := Trap\<rparr>))
       (toy_wasi 0) wasm_prefix 1 [''a.wasm''] [] [] =
     (Returned False, ''Execution aborted with WebAssembly trap'' @ [CHR 0x0A],
      [''init'', ''fd_write''])"
proof -
  let ?w = "toy_wasi 0"
  let ?x = "map (\<lambda>f. (imp_name f, imp_function f)) (wasi_functions ?w)"
  let ?tm = "toy_ok\<lparr>toy_imports := [''fd_write''],
          toy_body := [(''fd_write'', [1, 0, 1, 4])], toy_result := Trap\<rparr>"
  let ?I = "toy_interp ?tm :: string list toy_interp_t"
  have 1: "init ?w 1 [''a.wasm''] [] = (0, [''init''])"
    by (simp add: toy_init)
  have 3: "resolve_imported_functions ?I ?tm (wasi_functions ?w) = Inr ?x"
    by (simp add: toy_resolve toy_names)
  have 4: "instantiate ?I ?tm ?x [] [] [] (MaxMemoryPagesLimit ?I) = Inr (Some (?tm, ?x))"
    by (simp add: toy_instantiate toy_ok_def)
  have 5: "find_exported_function_index ?I (instance_module ?I (?tm, ?x)) ''_start'' = Some 0"
    by (simp add: toy_lookups toy_ok_def)
  have 6: "get_function_type ?I (instance_module ?I (?tm, ?x)) 0 = FuncType_empty"
    by (simp add: toy_lookups toy_ok_def)
  have 7: "find_exported_memory ?I (?tm, ?x) ''memory'' = Some []"
    by (simp add: toy_lookups toy_ok_def)
  have 8: "execute ?I (?tm, ?x) 0 [] [''init''] = (Returns Trap, [''init'', ''fd_write''])"
    by (simp add: toy_lookups wasi_functions_def fd_write_def toy_wasi_def Result_def)
  have 9: "trapped Trap"
    by (simp add: Trap_def)
  from run_reports_trap [where err = "[]", OF 1 toy_parse 3 4 5 6 7 8 9] 8 9
  show ?thesis
    by (simp add: endl_def)
qed

text \<open>
  C10. Whenever \<open>run\<close> reaches the execution of the entry function (so the check before
  it has established that the entry type has no parameters and no results), a result that
  is not trapped carries no value: the assertion \<open>!result.has_value\<close> at the end of
  \<open>run\<close> always holds, and \<open>run\<close> then returns true. The interpreter's part is its
  type soundness, for every function and not only for the entry function. With it, on
  every input, \<open>run\<close> never ends in the failed assertion: what makes the assertion hold
  is the comparison of the entry type with \<open>FuncType{}\<close> that \<open>run\<close> makes before it
  executes. And when \<open>run\<close> reaches the execution and the result is not trapped, the
  result has no value and \<open>run\<close> returns true with the error stream as it was.
\<close>
theorem run_completes_without_value:
  assumes "type_sound I"
  shows "fst (run I w b argc argv err h0) \<noteq> AssertionFailed ''!result.has_value'' \<and>
    (init w argc argv h0 = (0, h1) \<and> parse I b = Inr m \<and>
     resolve_imported_functions I m (wasi_functions w) = Inr x \<and>
     instantiate I m x [] [] [] (MaxMemoryPagesLimit I) = Inr (Some inst) \<and>
     find_exported_function_index I (instance_module I inst) ''_start'' = Some start \<and>
     get_function_type I (instance_module I inst) start = FuncType_empty \<and>
     find_exported_memory I inst ''memory'' = Some mem \<and>
     execute I inst start [] h1 = (Returns r, h2) \<and> \<not> trapped r \<longrightarrow>
     \<not> has_value r \<and> run I w b argc argv err h0 = (Returned True, err, h2))"
proof -
  have sound: "\<not> has_value r'"
    if "execute I inst' idx [] h = (Returns r', h')" and "\<not> trapped r'"
      and "get_function_type I (instance_module I inst') idx = FuncType_empty"
    for inst' idx h r' h'
  proof -
    from assms that(1,2)
    have "has_value r' = (outputs (get_function_type I (instance_module I inst') idx) \<noteq> [])"
      unfolding type_sound_def by blast
    with that(3) show ?thesis
      by (simp add: FuncType_empty_def)
  qed
  have never: "fst (run I w b argc argv err h0) \<noteq> AssertionFailed ''!result.has_value''"
    by (auto simp: run_def dest: sound
        split: prod.splits sum.splits option.splits call.splits if_splits)
  have reached: "\<not> has_value r \<and> run I w b argc argv err h0 = (Returned True, err, h2)"
    if "init w argc argv h0 = (0, h1)" and "parse I b = Inr m"
      and "resolve_imported_functions I m (wasi_functions w) = Inr x"
      and "instantiate I m x [] [] [] (MaxMemoryPagesLimit I) = Inr (Some inst)"
      and "find_exported_function_index I (instance_module I inst) ''_start'' = Some start"
      and "get_function_type I (instance_module I inst) start = FuncType_empty"
      and "find_exported_memory I inst ''memory'' = Some mem"
      and "execute I inst start [] h1 = (Returns r, h2)" and "\<not> trapped r"
  proof -
    from that(8,9,6) have "\<not> has_value r"
      by (rule sound)
    with that show ?thesis
      by (simp add: run_checks)
  qed
  from never reached show ?thesis
    by blast
qed

text \<open>
  Under a type-sound interpreter: an entry function that writes once and returns, and a
  module whose \<open>_start\<close> declares an i32 result and returns one. The first run
  completes; the second is rejected for its signature, so the value it would return
  never meets the assertion.
\<close>
theorem run_completes_without_value_witness:
  "type_sound (typed_results (toy_interp (toy_ok\<lparr>toy_imports := [''fd_write''],
          toy_body := [(''fd_write'', [1, 0, 1, 4])]\<rparr>) :: string list toy_interp_t)) \<and>
   run (typed_results (toy_interp (toy_ok\<lparr>toy_imports := [''fd_write''],
          toy_body := [(''fd_write'', [1, 0, 1, 4])]\<rparr>)))
       (toy_wasi 0) wasm_prefix 1 [''a.wasm''] [] [] =
     (Returned True, [], [''init'', ''fd_write'']) \<and>
   execute (typed_results (toy_interp (toy_ok\<lparr>toy_start := Some \<lparr>inputs = [], outputs = [i32]\<rparr>,
          toy_result := Result 7\<rparr>)))
     (toy_ok\<lparr>toy_start := Some \<lparr>inputs = [], outputs = [i32]\<rparr>, toy_result := Result 7\<rparr>,
      map (\<lambda>f. (imp_name f, imp_function f)) (wasi_functions (toy_wasi 0))) 0 [] [''init''] =
     (Returns (Result 7), [''init'']) \<and>
   fst (run (typed_results (toy_interp (toy_ok\<lparr>toy_start := Some \<lparr>inputs = [], outputs = [i32]\<rparr>,
          toy_result := Result 7\<rparr>)))
       (toy_wasi 0) wasm_prefix 1 [''a.wasm''] [] []) \<noteq> AssertionFailed ''!result.has_value''"
proof -
  let ?w = "toy_wasi 0"
  let ?x = "map (\<lambda>f. (imp_name f, imp_function f)) (wasi_functions ?w)"
  let ?tm = "toy_ok\<lparr>toy_imports := [''fd_write''],
          toy_body := [(''fd_write'', [1, 0, 1, 4])]\<rparr>"
  let ?I = "typed_results (toy_interp ?tm) :: string list toy_interp_t"
  have s: "type_sound ?I"
    by (rule type_sound_typed_results)
  have 1: "init ?w 1 [''a.wasm''] [] = (0, [''init''])"
    by (simp add: toy_init)
  have 2: "parse ?I wasm_prefix = Inr ?tm"
    by (simp add: typed_results_def toy_parse)
  have 3: "resolve_imported_functions ?I ?tm (wasi_functions ?w) = Inr ?x"
    by (simp add: typed_results_def toy_resolve toy_names)
  have 4: "instantiate ?I ?tm ?x [] [] [] (MaxMemoryPagesLimit ?I) = Inr (Some (?tm, ?x))"
    using toy_instantiate [of ?tm ?tm ?x] by (simp add: typed_results_def toy_ok_def)
  have 5: "find_exported_function_index ?I (instance_module ?I (?tm, ?x)) ''_start'' = Some 0"
    by (simp add: typed_results_def toy_lookups toy_ok_def)
  have 6: "get_function_type ?I (instance_module ?I (?tm, ?x)) 0 = FuncType_empty"
    by (simp add: typed_results_def toy_lookups toy_ok_def)
  have 7: "find_exported_memory ?I (?tm, ?x) ''memory'' = Some []"
    by (simp add: typed_results_def toy_lookups toy_ok_def)
  have 8: "execute ?I (?tm, ?x) 0 [] [''init''] = (Returns Void, [''init'', ''fd_write''])"
    by (simp add: typed_results_def toy_lookups wasi_functions_def fd_write_def toy_wasi_def
        Result_def toy_ok_def Void_def FuncType_empty_def)
  have 9: "\<not> trapped Void"
    by (simp add: Void_def)
  from 1 2 3 4 5 6 7 8 9
  have a: "run ?I ?w wasm_prefix 1 [''a.wasm''] [] [] = (Returned True, [], [''init'', ''fd_write''])"
    by (intro run_completes_without_value [OF s, where err = "[]" and r = Void,
          THEN conjunct2, THEN mp, THEN conjunct2]) simp
  let ?tv = "toy_ok\<lparr>toy_start := Some \<lparr>inputs = [], outputs = [i32]\<rparr>, toy_result := Result 7\<rparr>"
  let ?J = "typed_results (toy_interp ?tv) :: string list toy_interp_t"
  have e: "execute ?J (?tv, ?x) 0 [] [''init''] = (Returns (Result 7), [''init''])"
    by (simp add: typed_results_def toy_lookups toy_ok_def Result_def)
  note b = run_completes_without_value [OF type_sound_typed_results,
      where I1 = "toy_interp ?tv" and w = ?w and b = wasm_prefix and argc = 1
        and argv = "[''a.wasm'']" and err = "[]" and ?h0.0 = "[]", THEN conjunct1]
  from s a e b show ?thesis
    by simp
qed

end
